theory Spec2Isabelle
  imports Complex_Main
begin

section \<open>Data model\<close>

text \<open>
  The two notebooks compute with NumPy double-precision numbers. A finite double is
  represented by the real number it denotes (\<^typ>\<open>real\<close>); a value a computation
  returns is a \<open>npfloat\<close>, which adds the two kinds of non-finite result. The reals
  have no signed zero, so the sign of a zero or of an infinity is not represented.

  The two vector fields below are written with the arithmetic of the reals. What is
  proved of them concerns only the components that are copied from the state and the
  time argument, which no arithmetic touches. The computed accelerations of the
  notebooks are rounded results of binary64 operations and of the library functions
  \<^verbatim>\<open>pow\<close>, \<^verbatim>\<open>sin\<close> and \<^verbatim>\<open>cos\<close>; nothing is stated about them here.
\<close>

datatype npfloat = Finite real | Infinite | NaN

text \<open>The operator \<^verbatim>\<open>/\<close> on two NumPy scalars.\<close>

definition np_divide :: "real \<Rightarrow> real \<Rightarrow> npfloat" where
  "np_divide a b = (if b \<noteq> 0 then Finite (a / b) else if a = 0 then NaN else Infinite)"

text \<open>The exceptions that indexing, tuple unpacking and \<^verbatim>\<open>argmin\<close> can raise.\<close>

datatype py_error = IndexError | ValueError

subsection \<open>Two-body system (Orbit-final\_v1.ipynb)\<close>

record Orbit =
  m1 :: real
  m2 :: real
  G :: real

text \<open>
  The local variable \<^verbatim>\<open>dom\<close> of \<^verbatim>\<open>Orbit.dy_dt\<close>:
  \<^verbatim>\<open>dom = np.sqrt((y[0]-y[4])**2+(y[2]-y[6])**2)\<close>.
\<close>

definition Orbit_dom :: "real list \<Rightarrow> real" where
  "Orbit_dom y = sqrt ((y ! 0 - y ! 4) ^ 2 + (y ! 2 - y ! 6) ^ 2)"

text \<open>
  \<^verbatim>\<open>Orbit.dy_dt(self, t, y)\<close>. The state is indexed up to \<^verbatim>\<open>y[7]\<close>, so a state
  with fewer than eight components raises \<^verbatim>\<open>IndexError\<close>; components beyond the
  eighth are never read.
\<close>

definition Orbit_dy_dt :: "Orbit \<Rightarrow> real \<Rightarrow> real list \<Rightarrow> py_error + npfloat list" where
  "Orbit_dy_dt self t y =
     (if length y < 8 then Inl IndexError
      else let dom = Orbit_dom y in
        Inr [Finite (y ! 1), np_divide (G self * Orbit.m2 self * (y ! 4 - y ! 0)) (dom ^ 3),
             Finite (y ! 3), np_divide (G self * Orbit.m2 self * (y ! 6 - y ! 2)) (dom ^ 3),
             Finite (y ! 5), np_divide (- G self * Orbit.m1 self * (y ! 4 - y ! 0)) (dom ^ 3),
             Finite (y ! 7), np_divide (- G self * Orbit.m1 self * (y ! 6 - y ! 2)) (dom ^ 3)])"

subsection \<open>Double pendulum (pendulum-final\_v1.ipynb)\<close>

record DoublePendulum =
  L1 :: real
  L2 :: real
  m1 :: real
  m2 :: real
  g :: real

text \<open>
  The factor shared by both denominators of \<^verbatim>\<open>DoublePendulum.dy_dt\<close>,
  \<^verbatim>\<open>2.*self.m1 + self.m2 - self.m2*np.cos(2*y[0]-2*y[2])\<close>, and the two denominators,
  which multiply it by \<^verbatim>\<open>self.L1\<close> and \<^verbatim>\<open>self.L2\<close>.
\<close>

definition DP_denom_factor :: "DoublePendulum \<Rightarrow> real list \<Rightarrow> real" where
  "DP_denom_factor self y = 2 * m1 self + m2 self - m2 self * cos (2 * y ! 0 - 2 * y ! 2)"

definition DP_denom1 :: "DoublePendulum \<Rightarrow> real list \<Rightarrow> real" where
  "DP_denom1 self y = L1 self * DP_denom_factor self y"

definition DP_denom2 :: "DoublePendulum \<Rightarrow> real list \<Rightarrow> real" where
  "DP_denom2 self y = L2 self * DP_denom_factor self y"

text \<open>The two numerators, in the order of the source expression.\<close>

definition DP_num1 :: "DoublePendulum \<Rightarrow> real list \<Rightarrow> real" where
  "DP_num1 self y =
     - g self * (2 * m1 self + m2 self) * sin (y ! 0)
     - m2 self * g self * sin (y ! 0 - 2 * y ! 2)
     - 2 * sin (y ! 0 - y ! 2) * m2 self
         * ((y ! 3) ^ 2 * L2 self + (y ! 1) ^ 2 * L1 self * cos (y ! 0 - y ! 2))"

definition DP_num2 :: "DoublePendulum \<Rightarrow> real list \<Rightarrow> real" where
  "DP_num2 self y =
     2 * sin (y ! 0 - y ! 2)
       * (((y ! 1) ^ 2) * L1 self * (m1 self + m2 self)
          + (m1 self + m2 self) * g self * cos (y ! 0)
          + (y ! 3) ^ 2 * L2 self * m2 self * cos (y ! 0 - y ! 2))"

text \<open>
  \<^verbatim>\<open>DoublePendulum.dy_dt(self, t, y)\<close>. The state is indexed up to \<^verbatim>\<open>y[3]\<close>.
\<close>

definition DoublePendulum_dy_dt ::
    "DoublePendulum \<Rightarrow> real \<Rightarrow> real list \<Rightarrow> py_error + npfloat list" where
  "DoublePendulum_dy_dt self t y =
     (if length y < 4 then Inl IndexError
      else Inr [Finite (y ! 1), np_divide (DP_num1 self y) (DP_denom1 self y),
                Finite (y ! 3), np_divide (DP_num2 self y) (DP_denom2 self y)])"

subsection \<open>Binary64 rounding\<close>

text \<open>
  The result of a basic operation on doubles is the exact result rounded to the nearest
  double, ties to the even significand (IEEE 754, the default mode). For \<open>x \<noteq> 0\<close> the
  exponent is that of the binade of \<open>x\<close>, not below \<open>-1022\<close> (subnormal numbers share
  the least exponent); the significand has 53 bits, so doubles of that binade are the
  multiples of \<open>2\<^sup>e\<^sup>-\<^sup>5\<^sup>2\<close>. A rounded magnitude of \<open>2\<^sup>1\<^sup>0\<^sup>2\<^sup>4\<close> or more is an overflow.
\<close>

definition pow2 :: "int \<Rightarrow> real" where
  "pow2 e = (if 0 \<le> e then 2 ^ nat e else 1 / 2 ^ nat (- e))"

definition round_half_even :: "real \<Rightarrow> int" where
  "round_half_even q =
     (let f = \<lfloor>q\<rfloor>; d = q - of_int f
      in if d < 1 / 2 then f else if 1 / 2 < d then f + 1 else if even f then f else f + 1)"

definition f64_round :: "real \<Rightarrow> npfloat" where
  "f64_round x =
     (if x = 0 then Finite 0
      else let e = max \<lfloor>log 2 \<bar>x\<bar>\<rfloor> (- 1022);
               ulp = pow2 (e - 52);
               v = of_int (round_half_even (x / ulp)) * ulp
           in if pow2 1024 \<le> \<bar>v\<bar> then Infinite else Finite v)"

text \<open>The literal \<^verbatim>\<open>1.0e-9\<close>: the double nearest to \<open>10\<^sup>-\<^sup>9\<close>.\<close>

definition float_1e_9 :: real where
  "float_1e_9 = (case f64_round (1 / 10 ^ 9) of Finite v \<Rightarrow> v | _ \<Rightarrow> 0)"

subsection \<open>The integration driver\<close>

text \<open>
  \<^verbatim>\<open>scipy.integrate.solve_ivp\<close> is a library function, outside the repository. A call
  of it is recorded with the arguments the notebooks pass (the vector field, the span,
  the initial state and the keywords \<^verbatim>\<open>t_eval\<close>, \<^verbatim>\<open>atol\<close>, \<^verbatim>\<open>rtol\<close>); the solver
  itself is a parameter of \<^verbatim>\<open>solve_ode\<close>. Of the object it returns only the attribute
  \<^verbatim>\<open>y\<close> is read: one row per state component. Its \<^verbatim>\<open>status\<close> is never looked at.
\<close>

record ivp_call =
  ivp_fun :: "real \<Rightarrow> real list \<Rightarrow> py_error + npfloat list"
  t_span :: "real \<times> real"
  y0 :: "real list"
  t_eval :: "real list"
  atol :: real
  rtol :: real

record OdeResult =
  sol_y :: "npfloat list list"

type_synonym solver = "ivp_call \<Rightarrow> py_error + OdeResult"

text \<open>
  Two stand-in solvers to run the driver with. The first reports the initial state at
  every requested time. The second gives up after the first requested time, as
  \<^verbatim>\<open>solve_ivp\<close> does when a step fails: it still returns, and its rows hold only the
  times that were reached.
\<close>

definition hold_solver :: solver where
  "hold_solver c = Inr \<lparr>sol_y = map (\<lambda>v. map (\<lambda>s. Finite v) (t_eval c)) (y0 c)\<rparr>"

definition stalled_solver :: solver where
  "stalled_solver c = Inr \<lparr>sol_y = map (\<lambda>v. [Finite v]) (y0 c)\<rparr>"

text \<open>A keyword argument with a default value: \<^verbatim>\<open>abserr=1.0e-9, relerr=1.0e-9\<close>.\<close>

definition keyword_or :: "real option \<Rightarrow> real \<Rightarrow> real" where
  "keyword_or arg dflt = (case arg of None \<Rightarrow> dflt | Some v \<Rightarrow> v)"

text \<open>
  Unpacking \<^verbatim>\<open>solution.y\<close> into eight (four) names iterates over its rows and raises
  \<^verbatim>\<open>ValueError\<close> unless there are exactly eight (four) of them.
\<close>

definition unpack8 ::
    "'a list \<Rightarrow> py_error + ('a \<times> 'a \<times> 'a \<times> 'a \<times> 'a \<times> 'a \<times> 'a \<times> 'a)" where
  "unpack8 rows =
     (if length rows = 8
      then Inr (rows ! 0, rows ! 1, rows ! 2, rows ! 3, rows ! 4, rows ! 5, rows ! 6, rows ! 7)
      else Inl ValueError)"

definition unpack4 :: "'a list \<Rightarrow> py_error + ('a \<times> 'a \<times> 'a \<times> 'a)" where
  "unpack4 rows =
     (if length rows = 4 then Inr (rows ! 0, rows ! 1, rows ! 2, rows ! 3)
      else Inl ValueError)"

text \<open>
  \<^verbatim>\<open>Orbit.solve_ode\<close>. The expressions \<^verbatim>\<open>t_pts[0]\<close> and \<^verbatim>\<open>t_pts[-1]\<close> raise
  \<^verbatim>\<open>IndexError\<close> on an empty sequence; an exception of the solver propagates.
\<close>

definition Orbit_solve_ode ::
    "solver \<Rightarrow> Orbit \<Rightarrow> real list \<Rightarrow> real \<Rightarrow> real \<Rightarrow> real \<Rightarrow> real \<Rightarrow> real \<Rightarrow> real \<Rightarrow> real \<Rightarrow> real
      \<Rightarrow> real option \<Rightarrow> real option
      \<Rightarrow> py_error + (npfloat list \<times> npfloat list \<times> npfloat list \<times> npfloat list
                      \<times> npfloat list \<times> npfloat list \<times> npfloat list \<times> npfloat list)" where
  "Orbit_solve_ode solve_ivp self t_pts x_1_0 x_1_dot_0 y_1_0 y_1_dot_0
       x_2_0 x_2_dot_0 y_2_0 y_2_dot_0 abserr relerr =
     (let y = [x_1_0, x_1_dot_0, y_1_0, y_1_dot_0, x_2_0, x_2_dot_0, y_2_0, y_2_dot_0] in
      if t_pts = [] then Inl IndexError
      else case solve_ivp \<lparr>ivp_fun = Orbit_dy_dt self, t_span = (t_pts ! 0, last t_pts),
                            y0 = y, t_eval = t_pts,
                            atol = keyword_or abserr float_1e_9,
                            rtol = keyword_or relerr float_1e_9\<rparr> of
             Inl e \<Rightarrow> Inl e
           | Inr solution \<Rightarrow> unpack8 (sol_y solution))"

text \<open>\<^verbatim>\<open>DoublePendulum.solve_ode\<close>.\<close>

definition DoublePendulum_solve_ode ::
    "solver \<Rightarrow> DoublePendulum \<Rightarrow> real list \<Rightarrow> real \<Rightarrow> real \<Rightarrow> real \<Rightarrow> real
      \<Rightarrow> real option \<Rightarrow> real option
      \<Rightarrow> py_error + (npfloat list \<times> npfloat list \<times> npfloat list \<times> npfloat list)" where
  "DoublePendulum_solve_ode solve_ivp self t_pts phi_1_0 phi_1_dot_0 phi_2_0 phi_2_dot_0
       abserr relerr =
     (let y = [phi_1_0, phi_1_dot_0, phi_2_0, phi_2_dot_0] in
      if t_pts = [] then Inl IndexError
      else case solve_ivp \<lparr>ivp_fun = DoublePendulum_dy_dt self,
                            t_span = (t_pts ! 0, last t_pts),
                            y0 = y, t_eval = t_pts,
                            atol = keyword_or abserr float_1e_9,
                            rtol = keyword_or relerr float_1e_9\<rparr> of
             Inl e \<Rightarrow> Inl e
           | Inr solution \<Rightarrow> unpack4 (sol_y solution))"

subsection \<open>Plot slicing helper\<close>

text \<open>
  \<^verbatim>\<open>np.fabs(t_pts - c)\<close> for an array \<^verbatim>\<open>t_pts\<close> of finite doubles and a finite
  double \<^verbatim>\<open>c\<close>, entry by entry: the difference of two doubles is rounded, the
  absolute value is exact. After \<^verbatim>\<open>fabs\<close> an infinity is the positive one.
\<close>

fun np_fabs :: "npfloat \<Rightarrow> npfloat" where
  "np_fabs (Finite r) = Finite \<bar>r\<bar>"
| "np_fabs Infinite = Infinite"
| "np_fabs NaN = NaN"

definition np_fabs_sub :: "real list \<Rightarrow> real \<Rightarrow> npfloat list" where
  "np_fabs_sub t_pts c = map (\<lambda>x. np_fabs (f64_round (x - c))) t_pts"

text \<open>
  The comparison \<^verbatim>\<open>x >= mp\<close> of two results of \<^verbatim>\<open>fabs\<close>; it is false when either
  is a not-a-number.
\<close>

fun fabs_ge :: "npfloat \<Rightarrow> npfloat \<Rightarrow> bool" where
  "fabs_ge NaN mp = False"
| "fabs_ge x NaN = False"
| "fabs_ge Infinite mp = True"
| "fabs_ge (Finite a) Infinite = False"
| "fabs_ge (Finite a) (Finite b) = (b \<le> a)"

text \<open>
  \<^verbatim>\<open>ndarray.argmin()\<close> of a one-dimensional array of doubles: \<^verbatim>\<open>ValueError\<close> on an
  empty array; otherwise a scan that keeps the least value \<open>mp\<close> seen so far and its
  index, replaces them when \<^verbatim>\<open>x >= mp\<close> is false, and stops at the first
  not-a-number. \<open>argmin_from xs i mp min_ind\<close> scans the rest \<open>xs\<close> of the array, whose
  first entry has index \<open>i\<close>.
\<close>

fun argmin_from :: "npfloat list \<Rightarrow> nat \<Rightarrow> npfloat \<Rightarrow> nat \<Rightarrow> nat" where
  "argmin_from [] i mp min_ind = min_ind"
| "argmin_from (x # xs) i mp min_ind =
     (if fabs_ge x mp then argmin_from xs (Suc i) mp min_ind
      else if x = NaN then i
      else argmin_from xs (Suc i) x i)"

definition np_argmin :: "npfloat list \<Rightarrow> py_error + nat" where
  "np_argmin xs =
     (case xs of
        [] \<Rightarrow> Inl ValueError
      | x # rest \<Rightarrow> if x = NaN then Inr 0 else Inr (argmin_from rest 1 x 0))"

text \<open>\<^verbatim>\<open>start_stop_indices\<close> as defined in code cell 6 of the orbit notebook.\<close>

definition start_stop_indices :: "real list \<Rightarrow> real \<Rightarrow> real \<Rightarrow> py_error + (nat \<times> nat)" where
  "start_stop_indices t_pts plot_start plot_stop =
     (case np_argmin (np_fabs_sub t_pts plot_start) of
        Inl e \<Rightarrow> Inl e
      | Inr start_index \<Rightarrow>
          (case np_argmin (np_fabs_sub t_pts plot_stop) of
             Inl e \<Rightarrow> Inl e
           | Inr stop_index \<Rightarrow> Inr (start_index, stop_index)))"

text \<open>The same name defined again in code cell 7, replacing the first definition.\<close>

definition start_stop_indices_cell7 ::
    "real list \<Rightarrow> real \<Rightarrow> real \<Rightarrow> py_error + (nat \<times> nat)" where
  "start_stop_indices_cell7 t_pts plot_start plot_stop =
     (case np_argmin (np_fabs_sub t_pts plot_start) of
        Inl e \<Rightarrow> Inl e
      | Inr start_index \<Rightarrow>
          (case np_argmin (np_fabs_sub t_pts plot_stop) of
             Inl e \<Rightarrow> Inl e
           | Inr stop_index \<Rightarrow> Inr (start_index, stop_index)))"

section \<open>Auxiliary facts\<close>

lemma pow2_powr: "pow2 e = 2 powr (of_int e)"
  by (auto simp: pow2_def powr_realpow [symmetric] powr_minus field_simps)

lemma f64_round_binade:
  assumes "pow2 e \<le> \<bar>x\<bar>" and "\<bar>x\<bar> < pow2 (e + 1)" and "- 1022 \<le> e"
  shows "f64_round x =
           (let v = of_int (round_half_even (x / pow2 (e - 52))) * pow2 (e - 52)
            in if pow2 1024 \<le> \<bar>v\<bar> then Infinite else Finite v)"
proof -
  have pos: "0 < \<bar>x\<bar>" using assms(1) by (smt (verit) pow2_powr powr_gt_zero)
  have "\<lfloor>log 2 \<bar>x\<bar>\<rfloor> = e"
    using assms(1,2) pos by (simp add: floor_log_eq_powr_iff pow2_powr)
  with assms(3) pos show ?thesis by (simp add: f64_round_def Let_def)
qed

lemma round_half_even_up:
  assumes "of_int f \<le> q" and "q < of_int f + 1" and "1 / 2 < q - of_int f"
  shows "round_half_even q = f + 1"
proof -
  have "\<lfloor>q\<rfloor> = f" using assms(1,2) by (intro floor_unique) simp_all
  with assms(3) show ?thesis by (simp add: round_half_even_def Let_def)
qed

lemma round_half_even_down:
  assumes "of_int f \<le> q" and "q < of_int f + 1" and "q - of_int f < 1 / 2"
  shows "round_half_even q = f"
proof -
  have "\<lfloor>q\<rfloor> = f" using assms(1,2) by (intro floor_unique) simp_all
  with assms(3) show ?thesis by (simp add: round_half_even_def Let_def)
qed

lemma f64_round_eval:
  assumes "pow2 e \<le> \<bar>x\<bar>" and "\<bar>x\<bar> < pow2 (e + 1)" and "- 1022 \<le> e"
    and "round_half_even (x / pow2 (e - 52)) = n"
    and "of_int n * pow2 (e - 52) = v" and "\<bar>v\<bar> < pow2 1024"
  shows "f64_round x = Finite v"
  using f64_round_binade [OF assms(1,2,3)] assms(4,5,6) by (simp add: Let_def)

lemma pow2_add: "pow2 (a + b) = pow2 a * pow2 b"
  by (simp add: pow2_powr powr_add)

lemma pow2_pos: "0 < pow2 e"
  by (simp add: pow2_powr)

lemma pow2_less: "a < b \<Longrightarrow> pow2 a < pow2 b"
  by (simp add: pow2_powr)

lemma round_half_even_of_int: "round_half_even (of_int n) = n"
  by (simp add: round_half_even_def Let_def)

lemma f64_round_pow2:
  assumes "- 1022 \<le> e" and "e \<le> 1023"
  shows "f64_round (pow2 e) = Finite (pow2 e)" and "f64_round (- pow2 e) = Finite (- pow2 e)"
proof -
  have s: "pow2 e = of_int (2 ^ 52) * pow2 (e - 52)"
    using pow2_add [of 52 "e - 52"] by (simp add: pow2_def)
  have q: "pow2 e / pow2 (e - 52) = of_int (2 ^ 52)"
    using pow2_pos [of "e - 52"] by (subst s) simp
  have lt: "pow2 e < pow2 1024" using assms(2) by (intro pow2_less) simp
  have up: "pow2 e < pow2 (e + 1)" by (intro pow2_less) simp
  show "f64_round (pow2 e) = Finite (pow2 e)"
  proof (rule f64_round_eval [where e = e and n = "2 ^ 52"])
    show "round_half_even (pow2 e / pow2 (e - 52)) = 2 ^ 52"
      unfolding q by (rule round_half_even_of_int)
  qed (use pow2_pos [of e] lt up assms s in \<open>simp_all\<close>)
  show "f64_round (- pow2 e) = Finite (- pow2 e)"
  proof (rule f64_round_eval [where e = e and n = "- (2 ^ 52)"])
    have "- pow2 e / pow2 (e - 52) = of_int (- (2 ^ 52))"
      using q by simp
    then show "round_half_even (- pow2 e / pow2 (e - 52)) = - (2 ^ 52)"
      by (simp only: round_half_even_of_int)
  qed (use pow2_pos [of e] lt up assms s in \<open>simp_all\<close>)
qed

lemma f64_round_1e_9: "f64_round (1 / 10 ^ 9) = Finite (4835703278458517 / 2 ^ 82)"
proof (rule f64_round_eval [where e = "- 30" and n = 4835703278458517])
  show "pow2 (- 30) \<le> \<bar>1 / 10 ^ 9 :: real\<bar>" by (simp add: pow2_def)
  show "\<bar>1 / 10 ^ 9 :: real\<bar> < pow2 (- 30 + 1)" by (simp add: pow2_def)
  show "- 1022 \<le> (- 30 :: int)" by simp
  have q: "1 / 10 ^ 9 / pow2 (- 30 - 52) = (2 ^ 82 / 10 ^ 9 :: real)"
    by (simp add: pow2_def)
  show "round_half_even (1 / 10 ^ 9 / pow2 (- 30 - 52)) = 4835703278458517"
    unfolding q using round_half_even_up [of 4835703278458516 "2 ^ 82 / 10 ^ 9"] by simp
  show "of_int 4835703278458517 * pow2 (- 30 - 52) = (4835703278458517 / 2 ^ 82 :: real)"
    by (simp add: pow2_def)
  show "\<bar>4835703278458517 / 2 ^ 82 :: real\<bar> < pow2 1024" by (simp add: pow2_def)
qed

lemma float_1e_9_value: "float_1e_9 = 4835703278458517 / 2 ^ 82"
  unfolding float_1e_9_def f64_round_1e_9 by simp

lemma f64_round_below_one: "f64_round (1 - 1 / 2 ^ 60) = Finite 1"
proof (rule f64_round_eval [where e = "- 1" and n = "2 ^ 53"])
  show "pow2 (- 1) \<le> \<bar>1 - 1 / 2 ^ 60 :: real\<bar>" by (simp add: pow2_def)
  show "\<bar>1 - 1 / 2 ^ 60 :: real\<bar> < pow2 (- 1 + 1)" by (simp add: pow2_def)
  show "- 1022 \<le> (- 1 :: int)" by simp
  have q: "(1 - 1 / 2 ^ 60) / pow2 (- 1 - 52) = (2 ^ 53 - 1 / 2 ^ 7 :: real)"
    by (simp add: pow2_def field_simps)
  show "round_half_even ((1 - 1 / 2 ^ 60) / pow2 (- 1 - 52)) = 2 ^ 53"
    unfolding q using round_half_even_up [of "2 ^ 53 - 1" "2 ^ 53 - 1 / 2 ^ 7"] by simp
  show "of_int (2 ^ 53) * pow2 (- 1 - 52) = (1 :: real)" by (simp add: pow2_def)
  show "\<bar>1 :: real\<bar> < pow2 1024" by (simp add: pow2_def)
qed

lemma f64_round_below_minus_one: "f64_round (- 1 - 1 / 2 ^ 60) = Finite (- 1)"
proof (rule f64_round_eval [where e = 0 and n = "- (2 ^ 52)"])
  show "pow2 0 \<le> \<bar>- 1 - 1 / 2 ^ 60 :: real\<bar>" by (simp add: pow2_def)
  show "\<bar>- 1 - 1 / 2 ^ 60 :: real\<bar> < pow2 (0 + 1)" by (simp add: pow2_def)
  show "- 1022 \<le> (0 :: int)" by simp
  have q: "(- 1 - 1 / 2 ^ 60) / pow2 (0 - 52) = (- (2 ^ 52) - 1 / 2 ^ 8 :: real)"
    by (simp add: pow2_def field_simps)
  show "round_half_even ((- 1 - 1 / 2 ^ 60) / pow2 (0 - 52)) = - (2 ^ 52)"
    unfolding q using round_half_even_up [of "- (2 ^ 52) - 1" "- (2 ^ 52) - 1 / 2 ^ 8"] by simp
  show "of_int (- (2 ^ 52)) * pow2 (0 - 52) = (- 1 :: real)" by (simp add: pow2_def)
  show "\<bar>- 1 :: real\<bar> < pow2 1024" by (simp add: pow2_def)
qed

lemma f64_round_small_ints:
  "f64_round 1 = Finite 1" "f64_round (- 1) = Finite (- 1)"
  "f64_round 2 = Finite 2" "f64_round (- 2) = Finite (- 2)"
  using f64_round_pow2 [of 0] f64_round_pow2 [of 1] by (simp_all add: pow2_def)

lemma f64_round_zero: "f64_round 0 = Finite 0"
  by (simp add: f64_round_def)

lemma f64_round_not_NaN: "f64_round x \<noteq> NaN"
  by (simp add: f64_round_def Let_def)

lemma np_fabs_NaN_iff: "np_fabs x = NaN \<longleftrightarrow> x = NaN"
  by (cases x) simp_all

lemma np_fabs_sub_no_NaN: "NaN \<notin> set (np_fabs_sub t_pts c)"
proof
  assume "NaN \<in> set (np_fabs_sub t_pts c)"
  then obtain x where "NaN = np_fabs (f64_round (x - c))"
    by (auto simp: np_fabs_sub_def)
  then have "np_fabs (f64_round (x - c)) = NaN" by (rule sym)
  then show False by (simp add: np_fabs_NaN_iff f64_round_not_NaN)
qed

lemma fabs_ge_refl: "x \<noteq> NaN \<Longrightarrow> fabs_ge x x"
  by (cases x) simp_all

lemma fabs_ge_total: "x \<noteq> NaN \<Longrightarrow> y \<noteq> NaN \<Longrightarrow> \<not> fabs_ge x y \<Longrightarrow> fabs_ge y x"
  by (cases x; cases y) simp_all

lemma fabs_ge_trans: "fabs_ge x y \<Longrightarrow> fabs_ge y z \<Longrightarrow> fabs_ge x z"
  by (cases x; cases y; cases z) simp_all

lemma fabs_ge_strict_trans: "\<not> fabs_ge x y \<Longrightarrow> fabs_ge z y \<Longrightarrow> x \<noteq> NaN \<Longrightarrow> \<not> fabs_ge x z"
  by (cases x; cases y; cases z) simp_all

lemma argmin_from_correct:
  assumes "length pre = i" and "bi < i" and "pre ! bi = mp" and "NaN \<notin> set (pre @ xs)"
    and "\<forall>k<i. fabs_ge (pre ! k) mp" and "\<forall>k<bi. \<not> fabs_ge mp (pre ! k)"
  shows "argmin_from xs i mp bi < length (pre @ xs)
       \<and> (\<forall>k<length (pre @ xs). fabs_ge ((pre @ xs) ! k) ((pre @ xs) ! argmin_from xs i mp bi))
       \<and> (\<forall>k<argmin_from xs i mp bi.
             \<not> fabs_ge ((pre @ xs) ! argmin_from xs i mp bi) ((pre @ xs) ! k))"
  using assms
proof (induction xs arbitrary: pre i mp bi)
  case Nil
  then show ?case by simp
next
  case (Cons x xs)
  have xn: "x \<noteq> NaN" and mn: "mp \<noteq> NaN" and pn: "\<forall>k<i. pre ! k \<noteq> NaN"
    using Cons.prems(1,2,3,4) by (auto simp: in_set_conv_nth)
  have n': "NaN \<notin> set ((pre @ [x]) @ xs)" using Cons.prems(4) by simp
  show ?case
  proof (cases "fabs_ge x mp")
    case True
    have a: "length (pre @ [x]) = Suc i" "bi < Suc i" "(pre @ [x]) ! bi = mp"
      using Cons.prems(1,2,3) by (simp_all add: nth_append)
    have b: "\<forall>k<Suc i. fabs_ge ((pre @ [x]) ! k) mp"
      using Cons.prems(1,5) True by (auto simp: nth_append less_Suc_eq)
    have c: "\<forall>k<bi. \<not> fabs_ge mp ((pre @ [x]) ! k)"
      using Cons.prems(1,2,6) by (auto simp: nth_append)
    from Cons.IH [OF a n' b c] True show ?thesis by simp
  next
    case False
    have a: "length (pre @ [x]) = Suc i" "i < Suc i" "(pre @ [x]) ! i = x"
      using Cons.prems(1) by (simp_all add: nth_append)
    have xm: "fabs_ge mp x" using False xn mn by (rule fabs_ge_total [rotated 2])
    have b: "\<forall>k<Suc i. fabs_ge ((pre @ [x]) ! k) x"
      using Cons.prems(1,5) xm xn
      by (auto simp: nth_append less_Suc_eq fabs_ge_refl intro: fabs_ge_trans)
    have c: "\<forall>k<i. \<not> fabs_ge x ((pre @ [x]) ! k)"
      using Cons.prems(1,5) False xn
      by (auto simp: nth_append dest: fabs_ge_strict_trans)
    from Cons.IH [OF a n' b c] False xn show ?thesis by simp
  qed
qed

lemma np_argmin_correct:
  assumes "xs \<noteq> []" and "NaN \<notin> set xs"
  shows "\<exists>i. np_argmin xs = Inr i \<and> i < length xs
           \<and> (\<forall>k<length xs. fabs_ge (xs ! k) (xs ! i)) \<and> (\<forall>k<i. \<not> fabs_ge (xs ! i) (xs ! k))"
proof -
  from assms(1) obtain x rest where xs: "xs = x # rest" by (cases xs) auto
  have xn: "x \<noteq> NaN" using assms(2) xs by auto
  have "argmin_from rest 1 x 0 < length ([x] @ rest)
      \<and> (\<forall>k<length ([x] @ rest). fabs_ge (([x] @ rest) ! k) (([x] @ rest) ! argmin_from rest 1 x 0))
      \<and> (\<forall>k<argmin_from rest 1 x 0.
            \<not> fabs_ge (([x] @ rest) ! argmin_from rest 1 x 0) (([x] @ rest) ! k))"
    using assms(2) xn by (intro argmin_from_correct) (simp_all add: xs fabs_ge_refl)
  then show ?thesis using xn by (simp add: xs np_argmin_def)
qed

section \<open>The two vector fields\<close>

text \<open>
  Claim C3. For every 8-component state, the components 0, 2, 4 and 6 of the derivative
  returned by \<^verbatim>\<open>Orbit.dy_dt\<close> are the velocity components \<^verbatim>\<open>y[1]\<close>, \<^verbatim>\<open>y[3]\<close>,
  \<^verbatim>\<open>y[5]\<close> and \<^verbatim>\<open>y[7]\<close> of the state, unchanged. The separation of the bodies plays
  no part in it, so the statement also covers every state with nonzero separation.
\<close>

theorem Orbit_dy_dt_velocity_passthrough:
  assumes "length y = 8"
  shows "\<exists>r. Orbit_dy_dt p t y = Inr r \<and> length r = 8
           \<and> r ! 0 = Finite (y ! 1) \<and> r ! 2 = Finite (y ! 3)
           \<and> r ! 4 = Finite (y ! 5) \<and> r ! 6 = Finite (y ! 7)"
  using assms by (simp add: Orbit_dy_dt_def Let_def)

text \<open>The statement above at a concrete input.\<close>

theorem Orbit_dy_dt_velocity_passthrough_witness:
  "length [0, 1, 0, 2, 3, 5, 4, 7 :: real] = 8
   \<and> (\<exists>r. Orbit_dy_dt \<lparr>Orbit.m1 = 20, Orbit.m2 = 1, G = 20\<rparr> 0 [0, 1, 0, 2, 3, 5, 4, 7] = Inr r
         \<and> length r = 8
         \<and> r ! 0 = Finite 1 \<and> r ! 2 = Finite 2 \<and> r ! 4 = Finite 5 \<and> r ! 6 = Finite 7)"
  using Orbit_dy_dt_velocity_passthrough
          [of "[0, 1, 0, 2, 3, 5, 4, 7]" "\<lparr>Orbit.m1 = 20, Orbit.m2 = 1, G = 20\<rparr>" 0]
  by simp

text \<open>
  Claim C10. Both vector fields are autonomous: the time argument has no influence on
  the value returned by \<^verbatim>\<open>Orbit.dy_dt\<close> or by \<^verbatim>\<open>DoublePendulum.dy_dt\<close>, for every state
  vector (also one that is too short, where both calls raise the same exception).
\<close>

theorem dy_dt_autonomous:
  "Orbit_dy_dt p t y = Orbit_dy_dt p t' y
   \<and> DoublePendulum_dy_dt q t y = DoublePendulum_dy_dt q t' y"
  by (simp add: Orbit_dy_dt_def DoublePendulum_dy_dt_def)

section \<open>The integration driver\<close>

text \<open>
  Claim C8 says that for every nonempty \<^verbatim>\<open>t_pts\<close> the sequences \<^verbatim>\<open>solve_ode\<close> returns
  are aligned index for index with \<^verbatim>\<open>t_pts\<close>. The driver returns what the solver
  returns: with a solver run that stops after the first of three requested times, each
  returned sequence has one entry.
\<close>

theorem solve_ode_aligned_counterexample:
  "Orbit_solve_ode stalled_solver \<lparr>Orbit.m1 = 20, Orbit.m2 = 1, G = 20\<rparr> [0, 1, 2]
       1 2 3 4 5 6 7 8 None None
     = Inr ([Finite 1], [Finite 2], [Finite 3], [Finite 4],
            [Finite 5], [Finite 6], [Finite 7], [Finite 8])
   \<and> DoublePendulum_solve_ode stalled_solver \<lparr>L1 = 1, L2 = 1, m1 = 1, m2 = 1, g = 1\<rparr>
       [0, 1, 2] 1 2 3 4 None None
     = Inr ([Finite 1], [Finite 2], [Finite 3], [Finite 4])
   \<and> length [Finite 1] \<noteq> length [0, 1, 2 :: real]"
  by (simp add: Orbit_solve_ode_def DoublePendulum_solve_ode_def stalled_solver_def
        unpack8_def unpack4_def)

text \<open>
  Claim C8, as amended. For every nonempty sequence \<^verbatim>\<open>t_pts\<close>, all initial conditions
  and every solver, \<^verbatim>\<open>solve_ode\<close> of either class calls the solver with
  its own \<^verbatim>\<open>dy_dt\<close>, the span \<^verbatim>\<open>(t_pts[0], t_pts[-1])\<close>, the initial conditions in
  the order of the state, the evaluation times \<^verbatim>\<open>t_pts\<close>, and as tolerances the values
  of \<^verbatim>\<open>abserr\<close> and \<^verbatim>\<open>relerr\<close>, each the double \<^verbatim>\<open>1.0e-9\<close> when the caller gives
  none. An exception of the solver propagates. Otherwise the rows of the solver's
  \<^verbatim>\<open>y\<close> are returned as they are, when there are exactly eight (four) of them, and
  \<^verbatim>\<open>ValueError\<close> is raised when there are not. The returned sequences are as long as
  the solver made them: nothing in \<^verbatim>\<open>solve_ode\<close> checks them against \<^verbatim>\<open>t_pts\<close>.
\<close>

theorem solve_ode_forwards_solver:
  fixes solve_ivp :: solver and p :: Orbit and q :: DoublePendulum
    and t_pts :: "real list" and abserr relerr :: "real option"
    and x_1_0 x_1_dot_0 y_1_0 y_1_dot_0 x_2_0 x_2_dot_0 y_2_0 y_2_dot_0 :: real
    and phi_1_0 phi_1_dot_0 phi_2_0 phi_2_dot_0 :: real
  assumes "t_pts \<noteq> []"
  shows "Orbit_solve_ode solve_ivp p t_pts x_1_0 x_1_dot_0 y_1_0 y_1_dot_0
             x_2_0 x_2_dot_0 y_2_0 y_2_dot_0 abserr relerr
           = (case solve_ivp
                     \<lparr>ivp_fun = Orbit_dy_dt p, t_span = (hd t_pts, last t_pts),
                        y0 = [x_1_0, x_1_dot_0, y_1_0, y_1_dot_0,
                              x_2_0, x_2_dot_0, y_2_0, y_2_dot_0],
                        t_eval = t_pts,
                        atol = (case abserr of None \<Rightarrow> float_1e_9 | Some a \<Rightarrow> a),
                        rtol = (case relerr of None \<Rightarrow> float_1e_9 | Some r \<Rightarrow> r)\<rparr> of
                Inl e \<Rightarrow> Inl e
              | Inr s \<Rightarrow>
                  if length (sol_y s) = 8
                  then Inr (sol_y s ! 0, sol_y s ! 1, sol_y s ! 2, sol_y s ! 3,
                            sol_y s ! 4, sol_y s ! 5, sol_y s ! 6, sol_y s ! 7)
                  else Inl ValueError)
       \<and> DoublePendulum_solve_ode solve_ivp q t_pts phi_1_0 phi_1_dot_0 phi_2_0 phi_2_dot_0
             abserr relerr
           = (case solve_ivp
                     \<lparr>ivp_fun = DoublePendulum_dy_dt q, t_span = (hd t_pts, last t_pts),
                        y0 = [phi_1_0, phi_1_dot_0, phi_2_0, phi_2_dot_0],
                        t_eval = t_pts,
                        atol = (case abserr of None \<Rightarrow> float_1e_9 | Some a \<Rightarrow> a),
                        rtol = (case relerr of None \<Rightarrow> float_1e_9 | Some r \<Rightarrow> r)\<rparr> of
                Inl e \<Rightarrow> Inl e
              | Inr s \<Rightarrow>
                  if length (sol_y s) = 4
                  then Inr (sol_y s ! 0, sol_y s ! 1, sol_y s ! 2, sol_y s ! 3)
                  else Inl ValueError)
       \<and> f64_round (1 / 10 ^ 9) = Finite float_1e_9"
proof -
  have hd0: "t_pts ! 0 = hd t_pts"
    using assms by (simp add: hd_conv_nth)
  have k: "keyword_or arg float_1e_9 = (case arg of None \<Rightarrow> float_1e_9 | Some v \<Rightarrow> v)" for arg
    by (simp add: keyword_or_def)
  have u8: "unpack8 rows =
              (if length rows = 8
               then Inr (rows ! 0, rows ! 1, rows ! 2, rows ! 3,
                         rows ! 4, rows ! 5, rows ! 6, rows ! 7)
               else Inl ValueError)" for rows :: "npfloat list list"
    by (simp add: unpack8_def)
  have u4: "unpack4 rows =
              (if length rows = 4 then Inr (rows ! 0, rows ! 1, rows ! 2, rows ! 3)
               else Inl ValueError)" for rows :: "npfloat list list"
    by (simp add: unpack4_def)
  have o: "Orbit_solve_ode solve_ivp p t_pts x_1_0 x_1_dot_0 y_1_0 y_1_dot_0
             x_2_0 x_2_dot_0 y_2_0 y_2_dot_0 abserr relerr
           = (case solve_ivp
                     \<lparr>ivp_fun = Orbit_dy_dt p, t_span = (hd t_pts, last t_pts),
                        y0 = [x_1_0, x_1_dot_0, y_1_0, y_1_dot_0,
                              x_2_0, x_2_dot_0, y_2_0, y_2_dot_0],
                        t_eval = t_pts,
                        atol = (case abserr of None \<Rightarrow> float_1e_9 | Some a \<Rightarrow> a),
                        rtol = (case relerr of None \<Rightarrow> float_1e_9 | Some r \<Rightarrow> r)\<rparr> of
                Inl e \<Rightarrow> Inl e
              | Inr s \<Rightarrow>
                  if length (sol_y s) = 8
                  then Inr (sol_y s ! 0, sol_y s ! 1, sol_y s ! 2, sol_y s ! 3,
                            sol_y s ! 4, sol_y s ! 5, sol_y s ! 6, sol_y s ! 7)
                  else Inl ValueError)"
    unfolding Orbit_solve_ode_def Let_def k u8 hd0 using assms by (simp only: if_False)
  have d: "DoublePendulum_solve_ode solve_ivp q t_pts phi_1_0 phi_1_dot_0 phi_2_0 phi_2_dot_0
             abserr relerr
           = (case solve_ivp
                     \<lparr>ivp_fun = DoublePendulum_dy_dt q, t_span = (hd t_pts, last t_pts),
                        y0 = [phi_1_0, phi_1_dot_0, phi_2_0, phi_2_dot_0],
                        t_eval = t_pts,
                        atol = (case abserr of None \<Rightarrow> float_1e_9 | Some a \<Rightarrow> a),
                        rtol = (case relerr of None \<Rightarrow> float_1e_9 | Some r \<Rightarrow> r)\<rparr> of
                Inl e \<Rightarrow> Inl e
              | Inr s \<Rightarrow>
                  if length (sol_y s) = 4
                  then Inr (sol_y s ! 0, sol_y s ! 1, sol_y s ! 2, sol_y s ! 3)
                  else Inl ValueError)"
    unfolding DoublePendulum_solve_ode_def Let_def k u4 hd0 using assms by (simp only: if_False)
  have l: "f64_round (1 / 10 ^ 9) = Finite float_1e_9"
    by (simp only: f64_round_1e_9 float_1e_9_value)
  from o d l show ?thesis by (intro conjI)
qed

text \<open>
  The statement above with the solver that holds the initial state, three sample times
  and an absolute tolerance given by the caller.
\<close>

theorem solve_ode_forwards_solver_witness:
  "[0, 1, 2 :: real] \<noteq> []
   \<and> Orbit_solve_ode hold_solver \<lparr>Orbit.m1 = 20, Orbit.m2 = 1, G = 20\<rparr> [0, 1, 2]
       1 2 3 4 5 6 7 8 (Some (1 / 10 ^ 6)) None
     = Inr ([Finite 1, Finite 1, Finite 1], [Finite 2, Finite 2, Finite 2],
            [Finite 3, Finite 3, Finite 3], [Finite 4, Finite 4, Finite 4],
            [Finite 5, Finite 5, Finite 5], [Finite 6, Finite 6, Finite 6],
            [Finite 7, Finite 7, Finite 7], [Finite 8, Finite 8, Finite 8])
   \<and> DoublePendulum_solve_ode hold_solver \<lparr>L1 = 1, L2 = 1, m1 = 1, m2 = 1, g = 1\<rparr>
       [0, 1, 2] 1 2 3 4 (Some (1 / 10 ^ 6)) None
     = Inr ([Finite 1, Finite 1, Finite 1], [Finite 2, Finite 2, Finite 2],
            [Finite 3, Finite 3, Finite 3], [Finite 4, Finite 4, Finite 4])"
proof -
  have n: "[0, 1, 2 :: real] \<noteq> []" by simp
  from solve_ode_forwards_solver [where solve_ivp = hold_solver and t_pts = "[0, 1, 2]"
         and abserr = "Some (1 / 10 ^ 6)" and relerr = None
         and p = "\<lparr>Orbit.m1 = 20, Orbit.m2 = 1, G = 20\<rparr>"
         and q = "\<lparr>L1 = 1, L2 = 1, m1 = 1, m2 = 1, g = 1\<rparr>"
         and ?x_1_0.0 = 1 and ?x_1_dot_0.0 = 2 and ?y_1_0.0 = 3 and ?y_1_dot_0.0 = 4
         and ?x_2_0.0 = 5 and ?x_2_dot_0.0 = 6 and ?y_2_0.0 = 7 and ?y_2_dot_0.0 = 8
         and ?phi_1_0.0 = 1 and ?phi_1_dot_0.0 = 2 and ?phi_2_0.0 = 3 and ?phi_2_dot_0.0 = 4,
         OF n]
  show ?thesis by (simp add: hold_solver_def)
qed

section \<open>The slicing helper\<close>

text \<open>
  Claim C9 says that the indices returned by \<^verbatim>\<open>start_stop_indices\<close> minimise the
  absolute time difference. With the samples \<open>-1\<close> and \<open>1\<close> and \<^verbatim>\<open>plot_start\<close>
  \<open>2\<^sup>-\<^sup>6\<^sup>0\<close> both computed differences round to magnitude one, and the first index is
  returned, although the second sample is the nearer one.
\<close>

theorem start_stop_indices_nearest_counterexample:
  "start_stop_indices [- 1, 1] (1 / 2 ^ 60) (- 1) = Inr (0, 0)
   \<and> \<bar>1 - 1 / 2 ^ 60 :: real\<bar> < \<bar>- 1 - 1 / 2 ^ 60\<bar>"
proof -
  have a: "np_fabs_sub [- 1, 1] (1 / 2 ^ 60) = [Finite 1, Finite 1]"
    unfolding np_fabs_sub_def list.map f64_round_below_one f64_round_below_minus_one by simp
  have b: "np_fabs_sub [- 1, 1] (- 1) = [Finite 0, Finite 2]"
    unfolding np_fabs_sub_def by (simp add: f64_round_zero f64_round_small_ints)
  have "start_stop_indices [- 1, 1] (1 / 2 ^ 60) (- 1) = Inr (0, 0)"
    unfolding start_stop_indices_def a b by (simp add: np_argmin_def)
  then show ?thesis by simp
qed

text \<open>
  Claim C9, as amended. For every nonempty array of finite doubles and all finite
  \<^verbatim>\<open>plot_start\<close>, \<^verbatim>\<open>plot_stop\<close>, \<^verbatim>\<open>start_stop_indices\<close> returns a pair of valid indices \<open>(i, j)\<close> that
  minimise the computed distances \<^verbatim>\<open>np.fabs(t_pts - plot_start)\<close> and
  \<^verbatim>\<open>np.fabs(t_pts - plot_stop)\<close>, that is the absolute values of the rounded
  differences: every entry is at least the entry at the returned index, and every
  earlier entry is strictly greater. The two definitions of the helper in the notebook
  are the same function.
\<close>

theorem start_stop_indices_nearest_computed:
  assumes "t_pts \<noteq> []"
  shows "\<exists>i j. start_stop_indices t_pts plot_start plot_stop = Inr (i, j)
           \<and> i < length t_pts \<and> j < length t_pts
           \<and> (\<forall>k<length t_pts. fabs_ge (np_fabs (f64_round (t_pts ! k - plot_start)))
                                        (np_fabs (f64_round (t_pts ! i - plot_start))))
           \<and> (\<forall>k<i. \<not> fabs_ge (np_fabs (f64_round (t_pts ! i - plot_start)))
                                (np_fabs (f64_round (t_pts ! k - plot_start))))
           \<and> (\<forall>k<length t_pts. fabs_ge (np_fabs (f64_round (t_pts ! k - plot_stop)))
                                        (np_fabs (f64_round (t_pts ! j - plot_stop))))
           \<and> (\<forall>k<j. \<not> fabs_ge (np_fabs (f64_round (t_pts ! j - plot_stop)))
                                (np_fabs (f64_round (t_pts ! k - plot_stop))))
           \<and> start_stop_indices_cell7 = start_stop_indices"
proof -
  have ne: "np_fabs_sub t_pts c \<noteq> []" for c
    using assms by (simp add: np_fabs_sub_def)
  have len: "length (np_fabs_sub t_pts c) = length t_pts" for c
    by (simp add: np_fabs_sub_def)
  have nth: "np_fabs_sub t_pts c ! k = np_fabs (f64_round (t_pts ! k - c))"
    if "k < length t_pts" for c k
    using that by (simp add: np_fabs_sub_def)
  have near: "\<exists>i. np_argmin (np_fabs_sub t_pts c) = Inr i \<and> i < length t_pts
                \<and> (\<forall>k<length t_pts. fabs_ge (np_fabs (f64_round (t_pts ! k - c)))
                                             (np_fabs (f64_round (t_pts ! i - c))))
                \<and> (\<forall>k<i. \<not> fabs_ge (np_fabs (f64_round (t_pts ! i - c)))
                                     (np_fabs (f64_round (t_pts ! k - c))))" for c
  proof -
    from np_argmin_correct [OF ne [of c] np_fabs_sub_no_NaN [of t_pts c]] obtain i where
      i: "np_argmin (np_fabs_sub t_pts c) = Inr i" "i < length t_pts"
         "\<forall>k<length t_pts. fabs_ge (np_fabs_sub t_pts c ! k) (np_fabs_sub t_pts c ! i)"
         "\<forall>k<i. \<not> fabs_ge (np_fabs_sub t_pts c ! i) (np_fabs_sub t_pts c ! k)"
      by (auto simp: len)
    from i(2,3) have "\<forall>k<length t_pts. fabs_ge (np_fabs (f64_round (t_pts ! k - c)))
                                             (np_fabs (f64_round (t_pts ! i - c)))"
      by (simp add: nth)
    moreover from i(2,4) have "\<forall>k<i. \<not> fabs_ge (np_fabs (f64_round (t_pts ! i - c)))
                                            (np_fabs (f64_round (t_pts ! k - c)))"
      by (simp add: nth)
    ultimately show ?thesis using i(1,2) by blast
  qed
  have same: "start_stop_indices_cell7 = start_stop_indices"
    by (intro ext) (simp add: start_stop_indices_cell7_def start_stop_indices_def)
  from near [of plot_start] obtain i where
    i: "np_argmin (np_fabs_sub t_pts plot_start) = Inr i" "i < length t_pts"
       "\<forall>k<length t_pts. fabs_ge (np_fabs (f64_round (t_pts ! k - plot_start)))
                                    (np_fabs (f64_round (t_pts ! i - plot_start)))"
       "\<forall>k<i. \<not> fabs_ge (np_fabs (f64_round (t_pts ! i - plot_start)))
                            (np_fabs (f64_round (t_pts ! k - plot_start)))"
    by blast
  from near [of plot_stop] obtain j where
    j: "np_argmin (np_fabs_sub t_pts plot_stop) = Inr j" "j < length t_pts"
       "\<forall>k<length t_pts. fabs_ge (np_fabs (f64_round (t_pts ! k - plot_stop)))
                                    (np_fabs (f64_round (t_pts ! j - plot_stop)))"
       "\<forall>k<j. \<not> fabs_ge (np_fabs (f64_round (t_pts ! j - plot_stop)))
                            (np_fabs (f64_round (t_pts ! k - plot_stop)))"
    by blast
  have "start_stop_indices t_pts plot_start plot_stop = Inr (i, j)"
    by (simp add: start_stop_indices_def i(1) j(1))
  with i j same show ?thesis by blast
qed

text \<open>The statement above for three samples, where every difference is exact.\<close>

theorem start_stop_indices_nearest_computed_witness:
  "[0, 1, 2 :: real] \<noteq> []
   \<and> start_stop_indices [0, 1, 2] 1 2 = Inr (1, 2)
   \<and> start_stop_indices_cell7 [0, 1, 2] 1 2 = Inr (1, 2)"
proof -
  have a: "np_fabs_sub [0, 1, 2] 1 = [Finite 1, Finite 0, Finite 1]"
    unfolding np_fabs_sub_def by (simp add: f64_round_zero f64_round_small_ints)
  have b: "np_fabs_sub [0, 1, 2] 2 = [Finite 2, Finite 1, Finite 0]"
    unfolding np_fabs_sub_def by (simp add: f64_round_zero f64_round_small_ints)
  have e: "start_stop_indices [0, 1, 2] 1 2 = Inr (1, 2)"
    unfolding start_stop_indices_def a b by (simp add: np_argmin_def)
  from start_stop_indices_nearest_computed [of "[0, 1, 2]" 1 2] e
  show ?thesis by simp
qed

end
